theory Spec2Isabelle
  imports Main
begin

section \<open>The configuration document\<close>

text \<open>
  The agent edits one JSON document. Of a document that is a JSON object the model keeps
  the parts the engine reads or writes: the \<open>inbounds\<close> list and, per inbound, its tag,
  its protocol, its \<open>settings\<close> object with the \<open>clients\<close> array, and the number
  \<open>streamSettings.realitySettings.maxTimeDiff\<close>. A key that \<open>dict.get\<close> may miss is an
  \<open>option\<close>. The \<open>settings\<close> object may be missing (\<open>None\<close>): reading through
  \<open>inbound.get("settings", {}).get("clients", [])\<close> then gives \<open>[]\<close>, writing through
  \<open>inbound["settings"]["clients"]\<close> raises \<open>KeyError\<close>. A \<open>settings\<close> object without a
  \<open>clients\<close> array is \<open>Some []\<close>.
\<close>

record client =
  cid :: "string option"
  email :: "string option"
  flow :: "string option"

record inbound =
  tag :: "string option"
  protocol :: string
  settings :: "client list option"
  maxTimeDiff :: "int option"

record config =
  inbounds :: "inbound list"

text \<open>\<open>inbound.get("settings", {}).get("clients", [])\<close>\<close>

definition clients :: "inbound \<Rightarrow> client list" where
  "clients ib = (case settings ib of None \<Rightarrow> [] | Some cs \<Rightarrow> cs)"

text \<open>
  The config file on disk: missing; present but not readable by the agent; readable but
  not UTF-8 text; text that is not JSON (an empty or half-written file is such a file);
  JSON that is not an object (a list, a number, ...); or a document.
\<close>

datatype disk = Absent | Unreadable | NotUtf8 | NotJson | NonObject | Content config

text \<open>
  The Reality parameter store \<open>/etc/xray/reality.json\<close>: missing, present but not
  loadable, holding JSON that is not an object, or holding an object with its
  \<open>short_ids\<close> list (\<open>[]\<close> when the key is missing).
\<close>

datatype reality_store = RealityMissing | RealityBroken | RealityNonObject | RealityHolds "string list"

section \<open>State, environment, results\<close>

text \<open>The module-level \<open>UserCache\<close> instance; times are seconds on the agent's clock.\<close>

record user_cache =
  users :: "string set"
  last_sync :: "int option"
  last_xray_reload :: "int option"

text \<open>
  Every effect that a claim speaks about is logged in program order: a completed write of
  the config file, a reload command (with the call site that issued it: the migration in
  \<open>load_xray_config\<close> or the command handler), a live gRPC operation that was submitted,
  a registry mutation, and the restart command.
\<close>

datatype site = Migration | Handler

datatype event =
    EvSave config
  | EvReload site
  | EvGrpcAdd string string string
  | EvGrpcRemove string string string
  | EvCacheAdd string
  | EvCacheRemove string
  | EvRestart

record state =
  config_file :: disk
  reality :: reality_store
  cache :: user_cache
  trace :: "event list"

text \<open>
  What the external collaborators answer during one request: the clock, the standard
  library's UUID parser, the random short identifier a new Reality store gets and
  whether that store can be written, the gRPC endpoint, the \<open>xray -test\<close> dry run, the
  file system under the config file, the reload and restart commands.
\<close>

datatype probe = NoContainer | CopyFailed | ProbeError | Tested bool

text \<open>
  Where a write of the config file fails, if it does: at \<open>mkdir\<close> or \<open>open\<close>, before the
  file is touched, or in \<open>json.dump\<close> or the closing flush, after \<open>open\<close> has truncated it.
\<close>

datatype write_fault = NoFault | OpenFault | DumpFault

record env =
  now :: int
  uuid_ok :: "string \<Rightarrow> bool"
  generated_short_id :: string
  reality_writable :: bool
  grpc_available :: bool
  grpc_add_user :: "string \<Rightarrow> string \<Rightarrow> string \<Rightarrow> bool"
  grpc_remove_user :: "string \<Rightarrow> string \<Rightarrow> string \<Rightarrow> bool"
  xray_test :: "config \<Rightarrow> probe"
  write_fault :: write_fault
  reload_exit_ok :: bool
  restart_exit_ok :: bool

datatype exn =
    HTTPException nat string
  | ValueError
  | OSError
  | JSONDecodeError
  | UnicodeDecodeError
  | AttributeError
  | KeyError
  | NameError

datatype 'a result = Return 'a | Raise exn

section \<open>reality\_config\<close>

text \<open>
  \<open>create_reality_config\<close> generates keys and a short identifier and saves the new store;
  the save raises when the store cannot be written.
\<close>

definition create_reality_config :: "env \<Rightarrow> state \<Rightarrow> reality_store result \<times> state" where
  "create_reality_config ev s =
     (if reality_writable ev
      then (Return (RealityHolds [generated_short_id ev]),
            s\<lparr>reality := RealityHolds [generated_short_id ev]\<rparr>)
      else (Raise OSError, s))"

text \<open>
  \<open>get_reality_config\<close> is \<open>load_reality_config\<close>: a missing store and a store that cannot
  be loaded are replaced by a new one; whatever JSON value a loadable store holds is
  returned.
\<close>

definition get_reality_config :: "env \<Rightarrow> state \<Rightarrow> reality_store result \<times> state" where
  "get_reality_config ev s =
     (case reality s of
        RealityMissing \<Rightarrow> create_reality_config ev s
      | RealityBroken \<Rightarrow> create_reality_config ev s
      | RealityNonObject \<Rightarrow> (Return RealityNonObject, s)
      | RealityHolds ids \<Rightarrow> (Return (RealityHolds ids), s))"

text \<open>\<open>reality_config.get("short_ids", [])\<close>: only an object has \<open>get\<close>.\<close>

definition get_short_ids :: "reality_store \<Rightarrow> string list result" where
  "get_short_ids r = (case r of RealityHolds ids \<Rightarrow> Return ids | _ \<Rightarrow> Raise AttributeError)"

definition first_short_id :: "string list \<Rightarrow> string option" where
  "first_short_id ids = (case ids of [] \<Rightarrow> None | x # xs \<Rightarrow> Some x)"

text \<open>
  The three lines that every operation uses:
  \<open>reality_config = get_reality_config()\<close>,
  \<open>short_ids = reality_config.get("short_ids", [])\<close>,
  \<open>short_id = short_ids[0] if short_ids else None\<close>.
\<close>

definition reality_short_id :: "env \<Rightarrow> state \<Rightarrow> string option result \<times> state" where
  "reality_short_id ev s =
     (case get_reality_config ev s of
        (Raise e, s1) \<Rightarrow> (Raise e, s1)
      | (Return r, s1) \<Rightarrow>
          (case get_short_ids r of
             Raise e \<Rightarrow> (Raise e, s1)
           | Return ids \<Rightarrow> (Return (first_short_id ids), s1)))"

section \<open>xray\_manager: validate, save, reload, load\<close>

text \<open>
  \<open>validate_xray_config\<close> answers \<open>False\<close> only when \<open>xray -test\<close> ran and rejected the
  document; a missing container, a failed copy or any exception lets the save proceed.
\<close>

definition validate_xray_config :: "env \<Rightarrow> config \<Rightarrow> bool" where
  "validate_xray_config ev c = (case xray_test ev c of Tested ok \<Rightarrow> ok | _ \<Rightarrow> True)"

text \<open>
  The two statements that write the file. \<open>open(config_path, "w")\<close> (after \<open>mkdir\<close>)
  either fails and leaves the file as it is, or truncates it in place: the file is
  then empty. \<open>json.dump\<close> (with the flush at the end of the \<open>with\<close> block) either fails
  and leaves an empty or partial file, or completes the new document.
\<close>

definition open_config_file :: "env \<Rightarrow> state \<Rightarrow> unit result \<times> state" where
  "open_config_file ev s =
     (if write_fault ev = OpenFault then (Raise OSError, s)
      else (Return (), s\<lparr>config_file := NotJson\<rparr>))"

definition dump_config :: "env \<Rightarrow> config \<Rightarrow> state \<Rightarrow> unit result \<times> state" where
  "dump_config ev c s =
     (if write_fault ev = DumpFault then (Raise OSError, s\<lparr>config_file := NotJson\<rparr>)
      else (Return (), s\<lparr>config_file := Content c, trace := trace s @ [EvSave c]\<rparr>))"

text \<open>
  \<open>save_xray_config\<close> raises \<open>ValueError\<close> on a rejected document; otherwise it opens the
  config file itself for writing and dumps the document into it.
\<close>

definition save_xray_config :: "env \<Rightarrow> config \<Rightarrow> state \<Rightarrow> unit result \<times> state" where
  "save_xray_config ev c s =
     (if \<not> validate_xray_config ev c then (Raise ValueError, s)
      else (case open_config_file ev s of
              (Raise e, s1) \<Rightarrow> (Raise e, s1)
            | (Return x, s1) \<Rightarrow> dump_config ev c s1))"

text \<open>
  The state a crash leaves when the process dies after the first \<open>n\<close> of the three steps
  of \<open>save_xray_config\<close> (validate, open, dump); a step that raises ends the save.
\<close>

definition save_interrupted :: "nat \<Rightarrow> env \<Rightarrow> config \<Rightarrow> state \<Rightarrow> state" where
  "save_interrupted n ev c s =
     (if n \<le> 1 \<or> \<not> validate_xray_config ev c then s
      else (case open_config_file ev s of
              (Raise e, s1) \<Rightarrow> s1
            | (Return x, s1) \<Rightarrow> (if n = 2 then s1 else snd (dump_config ev c s1))))"

definition reload_xray :: "site \<Rightarrow> env \<Rightarrow> state \<Rightarrow> bool \<times> state" where
  "reload_xray st ev s = (reload_exit_ok ev, s\<lparr>trace := trace s @ [EvReload st]\<rparr>)"

definition is_vless :: "inbound \<Rightarrow> bool" where
  "is_vless ib = (protocol ib = ''vless'')"

text \<open>The first inbound whose protocol is \<open>vless\<close> (the loop with \<open>break\<close>).\<close>

definition find_vless :: "config \<Rightarrow> inbound option" where
  "find_vless c = find is_vless (inbounds c)"

text \<open>
  \<open>vless_inbound["settings"]["clients"] = clients\<close>: the inbound found by the loop is
  part of the loaded document, so the assignment changes the document. The callers
  check for the missing \<open>settings\<close> object (the \<open>KeyError\<close>) before they get here.
\<close>

fun set_vless_clients :: "client list \<Rightarrow> inbound list \<Rightarrow> inbound list" where
  "set_vless_clients cs [] = []"
| "set_vless_clients cs (ib # ibs) =
     (if is_vless ib then ib\<lparr>settings := Some cs\<rparr> # ibs else ib # set_vless_clients cs ibs)"

definition with_clients :: "client list \<Rightarrow> config \<Rightarrow> config" where
  "with_clients cs c = c\<lparr>inbounds := set_vless_clients cs (inbounds c)\<rparr>"

text \<open>
  \<open>get_default_config\<close>: the VLESS inbound tagged \<open>vless\<close> with \<open>maxTimeDiff = 10\<close> and the
  API inbound; the clients of an existing config file are preserved when it can be read
  (any exception there is caught). The Reality parameters are read first, which may
  create the store; a store without short identifiers gets one and is saved.
\<close>

definition existing_clients :: "disk \<Rightarrow> client list" where
  "existing_clients d =
     (case d of
        Content c \<Rightarrow> (case find_vless c of Some ib \<Rightarrow> clients ib | None \<Rightarrow> [])
      | _ \<Rightarrow> [])"

definition default_config :: "client list \<Rightarrow> config" where
  "default_config cs =
     \<lparr>inbounds =
        [\<lparr>tag = Some ''vless'', protocol = ''vless'',
          settings = Some cs, maxTimeDiff = Some 10\<rparr>,
         \<lparr>tag = Some ''api'', protocol = ''dokodemo-door'',
          settings = Some [], maxTimeDiff = None\<rparr>]\<rparr>"

definition get_default_config :: "env \<Rightarrow> state \<Rightarrow> config result \<times> state" where
  "get_default_config ev s =
     (case get_reality_config ev s of
        (Raise e, s1) \<Rightarrow> (Raise e, s1)
      | (Return r, s1) \<Rightarrow>
          (case get_short_ids r of
             Raise e \<Rightarrow> (Raise e, s1)
           | Return ids \<Rightarrow>
               (if ids = [] then
                  (if reality_writable ev
                   then (Return (default_config (existing_clients (config_file s1))),
                         s1\<lparr>reality := RealityHolds [generated_short_id ev]\<rparr>)
                   else (Raise OSError, s1))
                else (Return (default_config (existing_clients (config_file s1))), s1))))"

text \<open>
  The migration loop of \<open>load_xray_config\<close>: the first VLESS inbound whose
  \<open>maxTimeDiff\<close> is 0, 30 or 300 is rewritten to 10 and the loop stops there.
  \<open>None\<close>: no inbound needed the rewrite.
\<close>

definition obsolete :: "inbound \<Rightarrow> bool" where
  "obsolete ib = (is_vless ib \<and> maxTimeDiff ib \<in> {Some 0, Some 30, Some 300})"

fun migrate :: "inbound list \<Rightarrow> inbound list option" where
  "migrate [] = None"
| "migrate (ib # ibs) =
     (if obsolete ib then Some (ib\<lparr>maxTimeDiff := Some 10\<rparr> # ibs)
      else map_option ((#) ib) (migrate ibs))"

text \<open>
  \<open>load_xray_config\<close>: a missing file gives the default; \<open>open\<close> raises on a file that
  cannot be read, \<open>json.load\<close> on bytes that are not UTF-8 and on text that is not JSON,
  and \<open>config.get\<close> on JSON that is not an object. An exception of the migration's save
  is caught; the reload is then skipped.
\<close>

definition load_xray_config :: "env \<Rightarrow> state \<Rightarrow> config result \<times> state" where
  "load_xray_config ev s =
     (case config_file s of
        Absent \<Rightarrow> get_default_config ev s
      | Unreadable \<Rightarrow> (Raise OSError, s)
      | NotUtf8 \<Rightarrow> (Raise UnicodeDecodeError, s)
      | NotJson \<Rightarrow> (Raise JSONDecodeError, s)
      | NonObject \<Rightarrow> (Raise AttributeError, s)
      | Content c \<Rightarrow>
          (case migrate (inbounds c) of
             None \<Rightarrow> (Return c, s)
           | Some ibs \<Rightarrow>
               (let c' = c\<lparr>inbounds := ibs\<rparr> in
                (case save_xray_config ev c' s of
                   (Raise e, s1) \<Rightarrow> (Return c', s1)
                 | (Return u, s1) \<Rightarrow> (Return c', snd (reload_xray Migration ev s1))))))"

section \<open>user\_cache\<close>

definition truthy_id :: "client \<Rightarrow> string option" where
  "truthy_id cl = (case cid cl of Some u \<Rightarrow> (if u = [] then None else Some u) | None \<Rightarrow> None)"

text \<open>The identifiers \<open>sync_from_config\<close> collects: every VLESS inbound, every non-empty id.\<close>

definition config_ids :: "config \<Rightarrow> string list" where
  "config_ids c = concat (map (\<lambda>ib. List.map_filter truthy_id (clients ib))
                              (filter is_vless (inbounds c)))"

definition sync_from_config :: "env \<Rightarrow> state \<Rightarrow> state" where
  "sync_from_config ev s =
     (case load_xray_config ev s of
        (Raise e, s1) \<Rightarrow> s1
      | (Return c, s1) \<Rightarrow>
          s1\<lparr>cache := (cache s1)\<lparr>users := set (config_ids c), last_sync := Some (now ev)\<rparr>\<rparr>)"

definition maybe_sync :: "env \<Rightarrow> state \<Rightarrow> state" where
  "maybe_sync ev s =
     (case last_sync (cache s) of
        None \<Rightarrow> sync_from_config ev s
      | Some t \<Rightarrow> (if now ev - t \<ge> 300 then sync_from_config ev s else s))"

definition exists :: "env \<Rightarrow> string \<Rightarrow> bool \<Rightarrow> state \<Rightarrow> bool \<times> state" where
  "exists ev u check_sync s =
     (let s1 = (if check_sync then maybe_sync ev s else s)
      in (u \<in> users (cache s1), s1))"

definition cache_add :: "string \<Rightarrow> state \<Rightarrow> state" where
  "cache_add u s =
     s\<lparr>cache := (cache s)\<lparr>users := insert u (users (cache s))\<rparr>,
       trace := trace s @ [EvCacheAdd u]\<rparr>"

definition cache_remove :: "string \<Rightarrow> state \<Rightarrow> state" where
  "cache_remove u s =
     s\<lparr>cache := (cache s)\<lparr>users := users (cache s) - {u}\<rparr>,
       trace := trace s @ [EvCacheRemove u]\<rparr>"

definition mark_xray_reloaded :: "env \<Rightarrow> state \<Rightarrow> state" where
  "mark_xray_reloaded ev s = s\<lparr>cache := (cache s)\<lparr>last_xray_reload := Some (now ev)\<rparr>\<rparr>"

definition has_id :: "string \<Rightarrow> client list \<Rightarrow> bool" where
  "has_id u cs = list_ex (\<lambda>cl. cid cl = Some u) cs"

definition should_reload_xray :: "env \<Rightarrow> string \<Rightarrow> state \<Rightarrow> bool \<times> state" where
  "should_reload_xray ev u s =
     (if (case last_xray_reload (cache s) of Some t \<Rightarrow> now ev - t < 300 | None \<Rightarrow> False)
      then (False, s)
      else if (case last_sync (cache s) of Some t \<Rightarrow> now ev - t < 60 | None \<Rightarrow> False)
              \<and> u \<in> users (cache s)
      then (False, s)
      else
        (case load_xray_config ev s of
           (Raise e, s1) \<Rightarrow> (False, s1)
         | (Return c, s1) \<Rightarrow>
             (if list_ex (\<lambda>ib. has_id u (clients ib)) (filter is_vless (inbounds c))
              then ((case last_xray_reload (cache s1) of
                       None \<Rightarrow> True | Some t \<Rightarrow> now ev - t > 300), s1)
              else (False, s1))))"

section \<open>xray\_api: add, remove and regenerate a user\<close>

definition default_label :: "string \<Rightarrow> string" where
  "default_label u = ''user-'' @ take 8 u"

text \<open>\<open>email or f"user-{user_uuid[:8]}"\<close>: \<open>None\<close> and the empty string are falsy.\<close>

definition email_to_use :: "string option \<Rightarrow> string \<Rightarrow> string" where
  "email_to_use em u =
     (case em of None \<Rightarrow> default_label u
      | Some m \<Rightarrow> (if m = [] then default_label u else m))"

definition drop_label_conflicts :: "string \<Rightarrow> string \<Rightarrow> client list \<Rightarrow> client list" where
  "drop_label_conflicts lbl u cs =
     filter (\<lambda>cl. \<not> (email cl = Some lbl \<and> cid cl \<noteq> Some u)) cs"

definition remove_id :: "string \<Rightarrow> client list \<Rightarrow> client list" where
  "remove_id u cs = filter (\<lambda>cl. cid cl \<noteq> Some u) cs"

definition new_client :: "string \<Rightarrow> string \<Rightarrow> client" where
  "new_client u lbl = \<lparr>cid = Some u, email = Some lbl, flow = Some ''xtls-rprx-vision''\<rparr>"

definition inbound_tag :: "inbound \<Rightarrow> string" where
  "inbound_tag ib = (case tag ib of Some t \<Rightarrow> t | None \<Rightarrow> ''vless'')"

text \<open>The gRPC client turns every error of the call into \<open>False\<close>.\<close>

definition grpc_add :: "env \<Rightarrow> string \<Rightarrow> string \<Rightarrow> string \<Rightarrow> state \<Rightarrow> bool \<times> state" where
  "grpc_add ev tg u lbl s =
     (grpc_add_user ev tg u lbl, s\<lparr>trace := trace s @ [EvGrpcAdd tg u lbl]\<rparr>)"

definition grpc_remove :: "env \<Rightarrow> string \<Rightarrow> string \<Rightarrow> string \<Rightarrow> state \<Rightarrow> bool \<times> state" where
  "grpc_remove ev tg u lbl s =
     (grpc_remove_user ev tg u lbl, s\<lparr>trace := trace s @ [EvGrpcRemove tg u lbl]\<rparr>)"

text \<open>
  The tail shared by the live and the fallback branch of \<open>add_user_via_api\<close>:
  \<open>save_xray_config(config); user_cache.add(user_uuid); return True, used_grpc\<close>.
\<close>

definition save_then_add ::
  "env \<Rightarrow> config \<Rightarrow> string \<Rightarrow> bool \<Rightarrow> state \<Rightarrow> (bool \<times> bool) result \<times> state" where
  "save_then_add ev c u used s =
     (case save_xray_config ev c s of
        (Raise e, s1) \<Rightarrow> (Raise e, s1)
      | (Return x, s1) \<Rightarrow> (Return (True, used), cache_add u s1))"

text \<open>
  \<open>add_user_via_api\<close>, in the order of the source: load, find the VLESS inbound, return
  early for a known identifier, drop label conflicts (twice), read the Reality short
  identifier, append the new entry, assign the list to \<open>settings.clients\<close>, try gRPC,
  save, update the registry.
\<close>

definition add_user_via_api ::
  "env \<Rightarrow> string \<Rightarrow> string option \<Rightarrow> state \<Rightarrow> (bool \<times> bool) result \<times> state" where
  "add_user_via_api ev u em s =
     (case load_xray_config ev s of
        (Raise e, s1) \<Rightarrow> (Raise e, s1)
      | (Return c, s1) \<Rightarrow>
          (case find_vless c of
             None \<Rightarrow> (Return (False, False), s1)
           | Some ib \<Rightarrow>
               (if has_id u (clients ib) then (Return (True, False), s1)
                else
                  (let lbl = email_to_use em u;
                       cs = drop_label_conflicts lbl u
                              (drop_label_conflicts lbl u (clients ib)) @ [new_client u lbl];
                       c' = with_clients cs c
                   in (case reality_short_id ev s1 of
                         (Raise e, s2) \<Rightarrow> (Raise e, s2)
                       | (Return sid, s2) \<Rightarrow>
                           (case settings ib of
                              None \<Rightarrow> (Raise KeyError, s2)
                            | Some old_cs \<Rightarrow>
                                (if grpc_available ev
                                 then (case grpc_add ev (inbound_tag ib) u lbl s2 of
                                         (True, s3) \<Rightarrow> save_then_add ev c' u True s3
                                       | (False, s3) \<Rightarrow> save_then_add ev c' u False s3)
                                 else save_then_add ev c' u False s2)))))))"

definition save_then_remove ::
  "env \<Rightarrow> config \<Rightarrow> string \<Rightarrow> bool \<Rightarrow> state \<Rightarrow> (bool \<times> bool) result \<times> state" where
  "save_then_remove ev c u used s =
     (case save_xray_config ev c s of
        (Raise e, s1) \<Rightarrow> (Raise e, s1)
      | (Return x, s1) \<Rightarrow> (Return (True, used), cache_remove u s1))"

text \<open>The first client whose id is the one asked for.\<close>

definition find_client :: "string \<Rightarrow> client list \<Rightarrow> client option" where
  "find_client u cs = find (\<lambda>cl. cid cl = Some u) cs"

text \<open>
  \<open>grpc_client.is_available() and user_email\<close>: the label the live removal is keyed by,
  when the endpoint is reachable and the label is neither missing nor empty.
\<close>

definition live_label :: "env \<Rightarrow> client \<Rightarrow> string option" where
  "live_label ev cl =
     (if grpc_available ev
      then (case email cl of None \<Rightarrow> None | Some m \<Rightarrow> (if m = [] then None else Some m))
      else None)"

text \<open>
  \<open>remove_user_via_api\<close>: a client that was found came out of an existing \<open>settings\<close>
  object, so the assignment to \<open>settings.clients\<close> cannot raise here.
\<close>

definition remove_user_via_api ::
  "env \<Rightarrow> string \<Rightarrow> state \<Rightarrow> (bool \<times> bool) result \<times> state" where
  "remove_user_via_api ev u s =
     (case load_xray_config ev s of
        (Raise e, s1) \<Rightarrow> (Raise e, s1)
      | (Return c, s1) \<Rightarrow>
          (case find_vless c of
             None \<Rightarrow> (Return (False, False), s1)
           | Some ib \<Rightarrow>
               (case find_client u (clients ib) of
                  None \<Rightarrow> (Return (False, False), s1)
                | Some cl \<Rightarrow>
                    (let c' = with_clients (remove_id u (clients ib)) c
                     in (case live_label ev cl of
                           Some lbl \<Rightarrow>
                             (case grpc_remove ev (inbound_tag ib) u lbl s1 of
                                (True, s2) \<Rightarrow> save_then_remove ev c' u True s2
                              | (False, s2) \<Rightarrow> save_then_remove ev c' u False s2)
                         | None \<Rightarrow> save_then_remove ev c' u False s1)))))"

text \<open>\<open>update_inbound_via_api\<close> logs that a full inbound update is unsupported and returns \<open>False\<close>.\<close>

definition update_inbound_via_api :: "inbound \<Rightarrow> string \<Rightarrow> bool" where
  "update_inbound_via_api ib tg = False"

definition save_then_swap ::
  "env \<Rightarrow> config \<Rightarrow> string \<Rightarrow> string \<Rightarrow> string option \<Rightarrow> state
     \<Rightarrow> (bool \<times> string option) result \<times> state" where
  "save_then_swap ev c old new sid s =
     (case save_xray_config ev c s of
        (Raise e, s1) \<Rightarrow> (Raise e, s1)
      | (Return x, s1) \<Rightarrow> (Return (True, sid), cache_add new (cache_remove old s1)))"

text \<open>
  \<open>regenerate_user_via_api\<close>: load, find the VLESS inbound, filter the old identifier,
  read the Reality short identifier, append the new entry, assign the list to
  \<open>settings.clients\<close>, ask \<open>update_inbound_via_api\<close>, and in both branches save, update the
  registry and return success.
\<close>

definition regenerate_user_via_api ::
  "env \<Rightarrow> string \<Rightarrow> string \<Rightarrow> string option \<Rightarrow> state
     \<Rightarrow> (bool \<times> string option) result \<times> state" where
  "regenerate_user_via_api ev old new em s =
     (case load_xray_config ev s of
        (Raise e, s1) \<Rightarrow> (Raise e, s1)
      | (Return c, s1) \<Rightarrow>
          (case find_vless c of
             None \<Rightarrow> (Return (False, None), s1)
           | Some ib \<Rightarrow>
               (let cs = remove_id old (clients ib) @ [new_client new (email_to_use em new)];
                    c' = with_clients cs c
                in (case reality_short_id ev s1 of
                      (Raise e, s2) \<Rightarrow> (Raise e, s2)
                    | (Return sid, s2) \<Rightarrow>
                        (case settings ib of
                           None \<Rightarrow> (Raise KeyError, s2)
                         | Some old_cs \<Rightarrow>
                             (if update_inbound_via_api (ib\<lparr>settings := Some cs\<rparr>) (inbound_tag ib)
                              then save_then_swap ev c' old new sid s2
                              else save_then_swap ev c' old new sid s2))))))"

section \<open>xray\_manager: the config-only operations and restart\<close>

text \<open>
  \<open>xray_manager\<close> refers to \<open>user_cache\<close> without importing it (\<open>user_cache\<close> imports
  \<open>xray_manager\<close>), so the statements that touch the registry there raise \<open>NameError\<close>.
\<close>

definition remove_user_from_config :: "env \<Rightarrow> string \<Rightarrow> state \<Rightarrow> bool result \<times> state" where
  "remove_user_from_config ev u s =
     (case load_xray_config ev s of
        (Raise e, s1) \<Rightarrow> (Raise e, s1)
      | (Return c, s1) \<Rightarrow>
          (case find_vless c of
             None \<Rightarrow> (Return False, s1)
           | Some ib \<Rightarrow>
               (if length (remove_id u (clients ib)) = length (clients ib)
                then (Return False, s1)
                else (case save_xray_config ev (with_clients (remove_id u (clients ib)) c) s1 of
                        (Raise e, s2) \<Rightarrow> (Raise e, s2)
                      | (Return x, s2) \<Rightarrow> (Return True, s2)))))"

definition regenerate_user_in_config ::
  "env \<Rightarrow> string \<Rightarrow> string \<Rightarrow> string option \<Rightarrow> state
     \<Rightarrow> (bool \<times> string option) result \<times> state" where
  "regenerate_user_in_config ev old new em s =
     (case load_xray_config ev s of
        (Raise e, s1) \<Rightarrow> (Raise e, s1)
      | (Return c, s1) \<Rightarrow>
          (case find_vless c of
             None \<Rightarrow> (Return (False, None), s1)
           | Some ib \<Rightarrow>
               (let cs = remove_id old (clients ib)
                           @ [\<lparr>cid = Some new, email = Some (email_to_use em new), flow = None\<rparr>]
                in (case reality_short_id ev s1 of
                      (Raise e, s2) \<Rightarrow> (Raise e, s2)
                    | (Return sid, s2) \<Rightarrow>
                        (case settings ib of
                           None \<Rightarrow> (Raise KeyError, s2)
                         | Some old_cs \<Rightarrow>
                             (case save_xray_config ev (with_clients cs c) s2 of
                                (Raise e, s3) \<Rightarrow> (Raise e, s3)
                              | (Return x, s3) \<Rightarrow> (Raise NameError, s3)))))))"

text \<open>
  \<open>restart_xray\<close>: a restart command that exits with a non-zero code gives \<open>False\<close>;
  after one that exits with 0, \<open>user_cache.mark_xray_reloaded()\<close> raises \<open>NameError\<close>,
  which the function's own \<open>except Exception\<close> turns into \<open>False\<close> as well.
\<close>

definition restart_xray :: "env \<Rightarrow> state \<Rightarrow> bool \<times> state" where
  "restart_xray ev s =
     (if restart_exit_ok ev
      then (case (Raise NameError :: unit result) of
              Raise e \<Rightarrow> (False, s\<lparr>trace := trace s @ [EvRestart]\<rparr>)
            | Return x \<Rightarrow> (True, s\<lparr>trace := trace s @ [EvRestart]\<rparr>))
      else (False, s\<lparr>trace := trace s @ [EvRestart]\<rparr>))"

section \<open>The command handler\<close>

record request =
  command :: string
  user_uuid :: "string option"
  old_user_uuid :: "string option"
  req_email :: "string option"

record response =
  success :: bool
  message :: string
  short_id :: "string option"

text \<open>\<open>if short_id: response["short_id"] = short_id\<close>: an empty short id is left out.\<close>

definition reply_short_id :: "string option \<Rightarrow> string option" where
  "reply_short_id sid =
     (case sid of None \<Rightarrow> None | Some x \<Rightarrow> (if x = [] then None else Some x))"

definition bad_request :: "string \<Rightarrow> exn" where
  "bad_request detail = HTTPException 400 detail"

definition receive_restart :: "env \<Rightarrow> state \<Rightarrow> response result \<times> state" where
  "receive_restart ev s =
     (case restart_xray ev s of
        (True, s1) \<Rightarrow>
          (Return \<lparr>success = True, message = ''XRay restarted successfully'', short_id = None\<rparr>, s1)
      | (False, s1) \<Rightarrow> (Raise (HTTPException 500 ''Failed to restart XRay''), s1))"

definition receive_regenerate ::
  "env \<Rightarrow> string \<Rightarrow> string \<Rightarrow> string option \<Rightarrow> state \<Rightarrow> response result \<times> state" where
  "receive_regenerate ev old new em s =
     (case regenerate_user_via_api ev old new em s of
        (Raise e, s1) \<Rightarrow> (Raise e, s1)
      | (Return (True, sid), s1) \<Rightarrow>
          (Return \<lparr>success = True, message = ''User regenerated successfully'',
                   short_id = reply_short_id sid\<rparr>, s1)
      | (Return (False, sid), s1) \<Rightarrow>
          (case regenerate_user_in_config ev old new em s1 of
             (Raise e, s2) \<Rightarrow> (Raise e, s2)
           | (Return (True, sid2), s2) \<Rightarrow>
               (Return \<lparr>success = True, message = ''User regenerated successfully'',
                        short_id = reply_short_id sid2\<rparr>,
                snd (reload_xray Handler ev s2))
           | (Return (False, sid2), s2) \<Rightarrow>
               (Raise (bad_request ''Failed to regenerate user''), s2)))"

text \<open>
  The end of the handler: \<open>HTTPException\<close> 400 for a failed command, otherwise the
  response, which carries the short identifier only for \<open>add_user\<close>.
\<close>

definition finish ::
  "string \<Rightarrow> bool \<Rightarrow> string option \<Rightarrow> state \<Rightarrow> response result \<times> state" where
  "finish cmd ok sid s =
     (if \<not> ok then (Raise (bad_request (''Failed to execute command: '' @ cmd)), s)
      else (Return \<lparr>success = True,
                    message = ''Command '' @ cmd @ '' executed successfully'',
                    short_id = (if cmd = ''add_user'' then reply_short_id sid else None)\<rparr>, s))"

text \<open>
  The \<open>add_user\<close> branch: the registry short-circuit (which reads the Reality short
  identifier), otherwise \<open>add_user_via_api\<close>; after a success the short identifier is
  read (again), and the reload decision is
  \<open>elif not user_cache.exists(request.user_uuid, check_sync=False)\<close>.
\<close>

definition add_or_skip ::
  "env \<Rightarrow> string \<Rightarrow> string option \<Rightarrow> bool \<Rightarrow> state \<Rightarrow> (bool \<times> bool) result \<times> state" where
  "add_or_skip ev u em known s =
     (if known
      then (case reality_short_id ev s of
              (Raise e, s1) \<Rightarrow> (Raise e, s1)
            | (Return sid, s1) \<Rightarrow> (Return (True, False), s1))
      else add_user_via_api ev u em s)"

definition receive_add :: "env \<Rightarrow> string \<Rightarrow> string option \<Rightarrow> state \<Rightarrow> response result \<times> state" where
  "receive_add ev u em s =
     (case exists ev u True s of
        (known, s1) \<Rightarrow>
          (case add_or_skip ev u em known s1 of
             (Raise e, s2) \<Rightarrow> (Raise e, s2)
           | (Return (False, used_grpc), s2) \<Rightarrow> finish ''add_user'' False None s2
           | (Return (True, used_grpc), s2) \<Rightarrow>
               (case reality_short_id ev s2 of
                  (Raise e, s3) \<Rightarrow> (Raise e, s3)
                | (Return sid, s3) \<Rightarrow>
                    (if used_grpc then finish ''add_user'' True sid s3
                     else (case exists ev u False s3 of
                             (True, s4) \<Rightarrow> finish ''add_user'' True sid s4
                           | (False, s4) \<Rightarrow>
                               (case reload_xray Handler ev s4 of
                                  (reload_success, s5) \<Rightarrow>
                                    finish ''add_user'' reload_success sid s5))))))"

definition receive_remove :: "env \<Rightarrow> string \<Rightarrow> state \<Rightarrow> response result \<times> state" where
  "receive_remove ev u s =
     (case exists ev u True s of
        (False, s1) \<Rightarrow> finish ''remove_user'' True None s1
      | (True, s1) \<Rightarrow>
          (case remove_user_via_api ev u s1 of
             (Raise e, s2) \<Rightarrow> (Raise e, s2)
           | (Return (True, used_grpc), s2) \<Rightarrow>
               (if used_grpc then finish ''remove_user'' True None s2
                else (case reload_xray Handler ev s2 of
                        (reload_success, s3) \<Rightarrow> finish ''remove_user'' reload_success None s3))
           | (Return (False, used_grpc), s2) \<Rightarrow>
               (case remove_user_from_config ev u s2 of
                  (Raise e, s3) \<Rightarrow> (Raise e, s3)
                | (Return False, s3) \<Rightarrow> finish ''remove_user'' False None s3
                | (Return True, s3) \<Rightarrow>
                    (case reload_xray Handler ev s3 of
                       (reload_success, s4) \<Rightarrow>
                         finish ''remove_user'' reload_success None s4))))"

definition receive_command :: "env \<Rightarrow> request \<Rightarrow> state \<Rightarrow> response result \<times> state" where
  "receive_command ev rq s =
     (if command rq = ''restart_xray'' then receive_restart ev s
      else if command rq = ''regenerate_user'' then
        (case (old_user_uuid rq, user_uuid rq) of
           (Some old, Some new) \<Rightarrow>
             (if old = [] \<or> new = [] then
                (Raise (bad_request
                   ''Both old_user_uuid and user_uuid are required for regenerate_user command''), s)
              else if \<not> (uuid_ok ev old \<and> uuid_ok ev new) then
                (Raise (bad_request ''Invalid UUID format''), s)
              else receive_regenerate ev old new (req_email rq) s)
         | _ \<Rightarrow>
             (Raise (bad_request
                ''Both old_user_uuid and user_uuid are required for regenerate_user command''), s))
      else
        (case user_uuid rq of
           None \<Rightarrow> (Raise (bad_request ''user_uuid is required for this command''), s)
         | Some u \<Rightarrow>
             (if u = [] then (Raise (bad_request ''user_uuid is required for this command''), s)
              else if \<not> uuid_ok ev u then (Raise (bad_request ''Invalid UUID format''), s)
              else if command rq = ''add_user'' then receive_add ev u (req_email rq) s
              else if command rq = ''remove_user'' then receive_remove ev u s
              else (Raise (bad_request (''Unknown command: '' @ command rq)), s))))"

text \<open>Counting the effects of a request in the log.\<close>

definition is_save :: "event \<Rightarrow> bool" where
  "is_save e = (case e of EvSave c \<Rightarrow> True | _ \<Rightarrow> False)"


definition saves :: "event list \<Rightarrow> nat" where
  "saves evs = length (filter is_save evs)"



section \<open>Auxiliary notions for the statements\<close>

text \<open>
  The persisted client list: the \<open>settings.clients\<close> array of the first VLESS inbound of
  the document in the config file; empty when there is no such array.
\<close>

definition persisted_clients :: "state \<Rightarrow> client list" where
  "persisted_clients s =
     (case config_file s of
        Content c \<Rightarrow>
          (case find (\<lambda>ib. protocol ib = ''vless'') (inbounds c) of
             Some ib \<Rightarrow> (case settings ib of Some cs \<Rightarrow> cs | None \<Rightarrow> [])
           | None \<Rightarrow> [])
      | _ \<Rightarrow> [])"

text \<open>The same for a document in memory.\<close>

definition doc_clients :: "config \<Rightarrow> client list" where
  "doc_clients c =
     (case find (\<lambda>ib. protocol ib = ''vless'') (inbounds c) of
        Some ib \<Rightarrow> (case settings ib of Some cs \<Rightarrow> cs | None \<Rightarrow> [])
      | None \<Rightarrow> [])"


text \<open>An exception other than the handler's own \<open>HTTPException\<close>.\<close>

definition low_level :: "exn \<Rightarrow> bool" where
  "low_level e = (case e of HTTPException code detail \<Rightarrow> False | _ \<Rightarrow> True)"

text \<open>A result the caller can read as an answer: a response or the handler's \<open>HTTPException\<close>.\<close>

definition definite :: "response result \<Rightarrow> bool" where
  "definite r = (case r of Return x \<Rightarrow> True | Raise e \<Rightarrow> \<not> low_level e)"

text \<open>The caller reads the result as a success.\<close>

definition succeeded :: "response result \<Rightarrow> bool" where
  "succeeded r = (case r of Return x \<Rightarrow> success x | Raise e \<Rightarrow> False)"


definition labels :: "client list \<Rightarrow> string option list" where
  "labels cs = map email cs"

text \<open>The entry an add or a regenerate through the API is expected to append.\<close>

definition entry :: "string \<Rightarrow> string \<Rightarrow> client" where
  "entry u lbl = \<lparr>cid = Some u, email = Some lbl, flow = Some ''xtls-rprx-vision''\<rparr>"


text \<open>The responses of a successful command.\<close>

definition executed :: "string \<Rightarrow> string option \<Rightarrow> response" where
  "executed cmd sid =
     \<lparr>success = True, message = ''Command '' @ cmd @ '' executed successfully'',
      short_id = (if cmd = ''add_user'' then sid else None)\<rparr>"

definition regenerated :: "string option \<Rightarrow> response" where
  "regenerated sid =
     \<lparr>success = True, message = ''User regenerated successfully'', short_id = sid\<rparr>"

text \<open>
  The first VLESS inbound of a document, if there is one, has a \<open>settings\<close> object; the
  document has a VLESS inbound.
\<close>

definition settings_present :: "config \<Rightarrow> bool" where
  "settings_present c =
     (case find (\<lambda>ib. protocol ib = ''vless'') (inbounds c) of
        Some ib \<Rightarrow> settings ib \<noteq> None
      | None \<Rightarrow> True)"

definition has_vless :: "config \<Rightarrow> bool" where
  "has_vless c = (find (\<lambda>ib. protocol ib = ''vless'') (inbounds c) \<noteq> None)"



text \<open>
  The Reality store serves the request: it holds an object, or it is missing or not
  loadable and can be created; and when the default configuration has to be built (the
  config file is absent) from a store without short identifiers, the store can be
  written.
\<close>

definition reality_serves :: "env \<Rightarrow> state \<Rightarrow> bool" where
  "reality_serves ev s =
     (case reality s of
        RealityNonObject \<Rightarrow> False
      | RealityHolds ids \<Rightarrow> ids \<noteq> [] \<or> config_file s \<noteq> Absent \<or> reality_writable ev
      | _ \<Rightarrow> reality_writable ev)"

text \<open>
  The persisted client list survives a step, unless a write that failed in the dump has
  left the truncated file.
\<close>

definition kept :: "env \<Rightarrow> state \<Rightarrow> state \<Rightarrow> bool" where
  "kept ev s s1 =
     ((persisted_clients s1 = persisted_clients s
        \<and> (config_file s = NotJson \<longrightarrow> config_file s1 = NotJson))
      \<or> (write_fault ev = DumpFault \<and> config_file s1 = NotJson))"

section \<open>Scenarios\<close>

text \<open>
  A document with the one VLESS inbound and the API inbound, an agent that has just
  started next to a Reality store with one short identifier, an environment in which
  the gRPC endpoint is unreachable, no container answers the dry run, and the file
  system and the reload command work; the same environment with a dry run that rejects
  every document.
\<close>

definition conf :: "int \<Rightarrow> client list \<Rightarrow> config" where
  "conf mtd cs =
     \<lparr>inbounds =
        [\<lparr>tag = Some ''vless'', protocol = ''vless'', settings = Some cs, maxTimeDiff = Some mtd\<rparr>,
         \<lparr>tag = Some ''api'', protocol = ''dokodemo-door'', settings = Some [],
          maxTimeDiff = None\<rparr>]\<rparr>"

definition boot :: "disk \<Rightarrow> state" where
  "boot d = \<lparr>config_file = d, reality = RealityHolds [''6ba85179e30d4fc2''],
             cache = \<lparr>users = {}, last_sync = None, last_xray_reload = None\<rparr>,
             trace = []\<rparr>"

definition env_at :: "int \<Rightarrow> env" where
  "env_at t =
     \<lparr>now = t, uuid_ok = (\<lambda>x. length x = 36), generated_short_id = ''a1b2c3'',
      reality_writable = True, grpc_available = False,
      grpc_add_user = (\<lambda>tg u lbl. False), grpc_remove_user = (\<lambda>tg u lbl. False),
      xray_test = (\<lambda>c. NoContainer), write_fault = NoFault,
      reload_exit_ok = True, restart_exit_ok = True\<rparr>"

definition env_rejecting :: "int \<Rightarrow> env" where
  "env_rejecting t =
     \<lparr>now = t, uuid_ok = (\<lambda>x. length x = 36), generated_short_id = ''a1b2c3'',
      reality_writable = True, grpc_available = False,
      grpc_add_user = (\<lambda>tg u lbl. False), grpc_remove_user = (\<lambda>tg u lbl. False),
      xray_test = (\<lambda>c. Tested False), write_fault = NoFault,
      reload_exit_ok = True, restart_exit_ok = True\<rparr>"

definition uuid_a :: string where
  "uuid_a = ''11111111-1111-1111-1111-111111111111''"

definition uuid_b :: string where
  "uuid_b = ''22222222-2222-2222-2222-222222222222''"

definition uuid_x :: string where
  "uuid_x = ''99999999-9999-9999-9999-999999999999''"

definition sid0 :: "string option" where
  "sid0 = Some ''6ba85179e30d4fc2''"

definition add_request :: "string \<Rightarrow> string \<Rightarrow> request" where
  "add_request u lbl =
     \<lparr>command = ''add_user'', user_uuid = Some u, old_user_uuid = None, req_email = Some lbl\<rparr>"

definition remove_request :: "string \<Rightarrow> request" where
  "remove_request u =
     \<lparr>command = ''remove_user'', user_uuid = Some u, old_user_uuid = None, req_email = None\<rparr>"

definition regenerate_request :: "string \<Rightarrow> string \<Rightarrow> string \<Rightarrow> request" where
  "regenerate_request old new lbl =
     \<lparr>command = ''regenerate_user'', user_uuid = Some new, old_user_uuid = Some old,
      req_email = Some lbl\<rparr>"

text \<open>Requests served one after the other, each under its own environment.\<close>

fun serve :: "(env \<times> request) list \<Rightarrow> state \<Rightarrow> response result list \<times> state" where
  "serve [] s = ([], s)"
| "serve ((ev, rq) # rest) s =
     (case receive_command ev rq s of
        (r, s1) \<Rightarrow> (case serve rest s1 of (rs, s2) \<Rightarrow> (r # rs, s2)))"

text \<open>A document whose VLESS inbound has no \<open>settings\<close> object.\<close>

definition conf_bare :: config where
  "conf_bare =
     \<lparr>inbounds =
        [\<lparr>tag = Some ''vless'', protocol = ''vless'', settings = None, maxTimeDiff = Some 10\<rparr>]\<rparr>"

section \<open>Saving and loading\<close>

lemmas scenario_defs =
  conf_def boot_def env_at_def env_rejecting_def uuid_a_def uuid_b_def uuid_x_def sid0_def
  add_request_def remove_request_def regenerate_request_def conf_bare_def

lemmas model_defs =
  clients_def create_reality_config_def get_reality_config_def get_short_ids_def
  first_short_id_def reality_short_id_def
  validate_xray_config_def open_config_file_def dump_config_def save_xray_config_def
  reload_xray_def is_vless_def find_vless_def
  with_clients_def existing_clients_def default_config_def get_default_config_def obsolete_def
  load_xray_config_def truthy_id_def config_ids_def sync_from_config_def maybe_sync_def
  exists_def cache_add_def cache_remove_def has_id_def should_reload_xray_def
  default_label_def email_to_use_def drop_label_conflicts_def remove_id_def new_client_def
  inbound_tag_def grpc_add_def grpc_remove_def save_then_add_def
  add_user_via_api_def save_then_remove_def find_client_def live_label_def
  remove_user_via_api_def update_inbound_via_api_def save_then_swap_def
  regenerate_user_via_api_def remove_user_from_config_def regenerate_user_in_config_def
  restart_xray_def reply_short_id_def bad_request_def receive_restart_def
  receive_regenerate_def finish_def add_or_skip_def receive_add_def receive_remove_def
  receive_command_def List.map_filter_def Let_def

lemma save_cases:
  "save_xray_config ev c s =
     (if \<not> validate_xray_config ev c then (Raise ValueError, s)
      else (case write_fault ev of
              OpenFault \<Rightarrow> (Raise OSError, s)
            | DumpFault \<Rightarrow> (Raise OSError, s\<lparr>config_file := NotJson\<rparr>)
            | NoFault \<Rightarrow> (Return (), s\<lparr>config_file := Content c, trace := trace s @ [EvSave c]\<rparr>)))"
  by (cases "write_fault ev")
     (simp_all add: save_xray_config_def open_config_file_def dump_config_def)


text \<open>
  C3. As stated the claim fails: \<open>save_xray_config\<close> opens the config file itself with
  mode \<open>"w"\<close>. A write that fails in \<open>json.dump\<close> raises and leaves a file that holds
  neither the prior document nor the new one, and so does a crash between the \<open>open\<close>
  and the end of the dump.
\<close>

theorem save_not_atomic_counterexample:
  "save_xray_config ((env_at 0)\<lparr>write_fault := DumpFault\<rparr>) (conf 10 [new_client uuid_a ''u1''])
       (boot (Content (conf 10 [])))
     = (Raise OSError, boot NotJson)
   \<and> config_file (save_interrupted 2 (env_at 0) (conf 10 [new_client uuid_a ''u1''])
       (boot (Content (conf 10 []))))
     = NotJson
   \<and> NotJson \<noteq> Content (conf 10 [])
   \<and> NotJson \<noteq> Content (conf 10 [new_client uuid_a ''u1''])"
  by (simp add: save_cases save_interrupted_def open_config_file_def validate_xray_config_def
      env_at_def boot_def)

text \<open>
  C3, amended. \<open>save_xray_config\<close> validates first and then writes the config file in
  place, without a temporary file, \<open>fsync\<close> or rename. A rejected document, or a file
  that cannot be opened, leaves the prior content and raises. Otherwise the file is
  truncated by the \<open>open\<close>: it holds the complete new document when the save returns,
  and neither the prior nor the new document when the dump fails or the process dies
  between the \<open>open\<close> and the end of the dump.
\<close>

theorem save_xray_config_in_place:
  "save_xray_config ev c s =
     (if \<not> validate_xray_config ev c then (Raise ValueError, s)
      else (case write_fault ev of
              OpenFault \<Rightarrow> (Raise OSError, s)
            | DumpFault \<Rightarrow> (Raise OSError, s\<lparr>config_file := NotJson\<rparr>)
            | NoFault \<Rightarrow> (Return (), s\<lparr>config_file := Content c, trace := trace s @ [EvSave c]\<rparr>)))
   \<and> save_interrupted 0 ev c s = s
   \<and> save_interrupted 1 ev c s = s
   \<and> save_interrupted 2 ev c s =
       (if validate_xray_config ev c \<and> write_fault ev \<noteq> OpenFault
        then s\<lparr>config_file := NotJson\<rparr> else s)
   \<and> save_interrupted 3 ev c s = snd (save_xray_config ev c s)"
  by (simp add: save_cases save_interrupted_def open_config_file_def dump_config_def
      split: write_fault.splits)

theorem save_xray_config_in_place_witness:
  "validate_xray_config (env_at 0) (conf 10 []) \<and> write_fault (env_at 0) \<noteq> OpenFault
   \<and> save_xray_config (env_at 0) (conf 10 []) (boot Absent)
       = (Return (), (boot (Content (conf 10 [])))\<lparr>trace := [EvSave (conf 10 [])]\<rparr>)
   \<and> save_interrupted 2 (env_at 0) (conf 10 []) (boot Absent) = boot NotJson"
  using save_xray_config_in_place [of "env_at 0" "conf 10 []" "boot Absent"]
  by (simp add: validate_xray_config_def env_at_def boot_def)

lemma is_vless_upd [simp]:
  "is_vless (ib\<lparr>maxTimeDiff := m\<rparr>) = is_vless ib"
  "is_vless (ib\<lparr>settings := x\<rparr>) = is_vless ib"
  by (simp_all add: is_vless_def)

lemma clients_upd [simp]:
  "clients (ib\<lparr>maxTimeDiff := m\<rparr>) = clients ib"
  "clients (ib\<lparr>settings := Some cs\<rparr>) = cs"
  by (simp_all add: clients_def)

lemma find_migrate:
  "migrate ibs = Some ibs' \<Longrightarrow>
   \<exists>ib. find is_vless ibs = Some ib \<and>
        (find is_vless ibs' = Some ib \<or> find is_vless ibs' = Some (ib\<lparr>maxTimeDiff := Some 10\<rparr>))"
proof (induction ibs arbitrary: ibs')
  case Nil
  then show ?case by simp
next
  case (Cons ib ibs)
  show ?case
  proof (cases "obsolete ib")
    case True
    with Cons.prems show ?thesis by (auto simp: obsolete_def)
  next
    case False
    with Cons.prems obtain r where r: "migrate ibs = Some r" "ibs' = ib # r" by auto
    from Cons.IH [OF r(1)] r(2) show ?thesis by auto
  qed
qed

lemma filter_vless_migrate:
  "migrate ibs = Some ibs' \<Longrightarrow>
   map clients (filter is_vless ibs') = map clients (filter is_vless ibs)"
proof (induction ibs arbitrary: ibs')
  case Nil
  then show ?case by simp
next
  case (Cons ib ibs)
  show ?case
  proof (cases "obsolete ib")
    case True
    with Cons.prems show ?thesis by (auto simp: obsolete_def)
  next
    case False
    with Cons.prems obtain r where r: "migrate ibs = Some r" "ibs' = ib # r" by auto
    from Cons.IH [OF r(1)] r(2) show ?thesis by auto
  qed
qed

lemma config_ids_alt:
  "config_ids c =
     concat (map (List.map_filter truthy_id) (map clients (filter is_vless (inbounds c))))"
  by (simp add: config_ids_def comp_def)

lemma config_ids_migrate:
  "migrate (inbounds c) = Some ibs \<Longrightarrow> config_ids (c\<lparr>inbounds := ibs\<rparr>) = config_ids c"
  by (simp add: config_ids_alt filter_vless_migrate)




lemma load_steady:
  "config_file s = Content c \<Longrightarrow> migrate (inbounds c) = None \<Longrightarrow>
   load_xray_config ev s = (Return c, s)"
  by (simp add: load_xray_config_def)

lemma load_migrating:
  "config_file s = Content c \<Longrightarrow> migrate (inbounds c) = Some ibs \<Longrightarrow>
   load_xray_config ev s =
     (Return (c\<lparr>inbounds := ibs\<rparr>),
      if \<not> validate_xray_config ev (c\<lparr>inbounds := ibs\<rparr>) then s
      else (case write_fault ev of
              OpenFault \<Rightarrow> s
            | DumpFault \<Rightarrow> s\<lparr>config_file := NotJson\<rparr>
            | NoFault \<Rightarrow>
                s\<lparr>config_file := Content (c\<lparr>inbounds := ibs\<rparr>),
                  trace := trace s @ [EvSave (c\<lparr>inbounds := ibs\<rparr>), EvReload Migration]\<rparr>))"
  by (simp add: load_xray_config_def save_cases reload_xray_def Let_def
      split: write_fault.splits)

lemma get_default_config_cases:
  "get_default_config ev s =
     (case reality s of
        RealityNonObject \<Rightarrow> (Raise AttributeError, s)
      | RealityHolds ids \<Rightarrow>
          (if ids \<noteq> [] then (Return (default_config (existing_clients (config_file s))), s)
           else if reality_writable ev
           then (Return (default_config (existing_clients (config_file s))),
                 s\<lparr>reality := RealityHolds [generated_short_id ev]\<rparr>)
           else (Raise OSError, s))
      | _ \<Rightarrow>
          (if reality_writable ev
           then (Return (default_config (existing_clients (config_file s))),
                 s\<lparr>reality := RealityHolds [generated_short_id ev]\<rparr>)
           else (Raise OSError, s)))"
  by (simp add: get_default_config_def get_reality_config_def create_reality_config_def
      get_short_ids_def split: reality_store.splits)




section \<open>What a load leaves behind\<close>

lemma is_vless_fun: "(\<lambda>ib. protocol ib = ''vless'') = is_vless"
  by (simp add: is_vless_def fun_eq_iff)

lemma doc_clients_alt:
  "doc_clients c = (case find_vless c of Some ib \<Rightarrow> clients ib | None \<Rightarrow> [])"
  by (simp add: doc_clients_def find_vless_def is_vless_fun clients_def split: option.splits)

lemma persisted_Content [simp]: "config_file s = Content c \<Longrightarrow> persisted_clients s = doc_clients c"
  by (simp add: persisted_clients_def doc_clients_def)

lemma persisted_other [simp]:
  "config_file s = Absent \<Longrightarrow> persisted_clients s = []"
  "config_file s = Unreadable \<Longrightarrow> persisted_clients s = []"
  "config_file s = NotUtf8 \<Longrightarrow> persisted_clients s = []"
  "config_file s = NotJson \<Longrightarrow> persisted_clients s = []"
  "config_file s = NonObject \<Longrightarrow> persisted_clients s = []"
  by (simp_all add: persisted_clients_def)

lemma doc_clients_migrate:
  "migrate (inbounds c) = Some ibs \<Longrightarrow> doc_clients (c\<lparr>inbounds := ibs\<rparr>) = doc_clients c"
  by (auto simp: doc_clients_alt find_vless_def dest!: find_migrate)

lemma doc_clients_default [simp]: "doc_clients (default_config cs) = cs"
  by (simp add: doc_clients_def default_config_def)


lemma kept_refl [simp]: "kept ev s s"
  by (simp add: kept_def)

lemma kept_trans: "kept ev s s1 \<Longrightarrow> kept ev s1 s2 \<Longrightarrow> kept ev s s2"
  by (auto simp: kept_def)

lemma kept_same_file: "config_file s1 = config_file s \<Longrightarrow> kept ev s s1"
  by (simp add: kept_def persisted_clients_def)

lemma load_facts:
  assumes "load_xray_config ev s = (r, s1)"
  shows "cache s1 = cache s"
    and "trace s1 = trace s \<or> (\<exists>c. trace s1 = trace s @ [EvSave c, EvReload Migration])"
    and "kept ev s s1"
    and "r = Return c \<Longrightarrow> doc_clients c = persisted_clients s"
    and "r = Return c \<Longrightarrow> find_vless c = None \<Longrightarrow> s1 = s"
    and "config_file s \<noteq> Absent \<Longrightarrow> reality s1 = reality s"
proof -
  consider (absent) "config_file s = Absent"
    | (content_steady) c0 where "config_file s = Content c0" "migrate (inbounds c0) = None"
    | (content_migrating) c0 ibs where "config_file s = Content c0" "migrate (inbounds c0) = Some ibs"
    | (raising) "config_file s \<in> {Unreadable, NotUtf8, NotJson, NonObject}"
    by (cases "config_file s") auto
  then have "cache s1 = cache s
    \<and> (trace s1 = trace s \<or> (\<exists>c. trace s1 = trace s @ [EvSave c, EvReload Migration]))
    \<and> kept ev s s1
    \<and> (r = Return c \<longrightarrow> doc_clients c = persisted_clients s)
    \<and> (r = Return c \<longrightarrow> find_vless c = None \<longrightarrow> s1 = s)
    \<and> (config_file s \<noteq> Absent \<longrightarrow> reality s1 = reality s)"
  proof cases
    case absent
    with assms show ?thesis
      by (auto simp: load_xray_config_def get_default_config_cases existing_clients_def
          kept_def persisted_clients_def find_vless_def default_config_def is_vless_def
          doc_clients_def
          split: reality_store.splits if_splits)
  next
    case content_steady
    with assms show ?thesis by (auto simp: load_steady)
  next
    case content_migrating
    from find_migrate [OF content_migrating(2)]
    have v: "find_vless (c0\<lparr>inbounds := ibs\<rparr>) \<noteq> None" by (auto simp: find_vless_def)
    from content_migrating assms v show ?thesis
      by (auto simp: load_migrating kept_def doc_clients_migrate
          split: if_splits write_fault.splits)
  next
    case raising
    with assms show ?thesis by (auto simp: load_xray_config_def)
  qed
  then show "cache s1 = cache s"
    and "trace s1 = trace s \<or> (\<exists>c. trace s1 = trace s @ [EvSave c, EvReload Migration])"
    and "kept ev s s1"
    and "r = Return c \<Longrightarrow> doc_clients c = persisted_clients s"
    and "r = Return c \<Longrightarrow> find_vless c = None \<Longrightarrow> s1 = s"
    and "config_file s \<noteq> Absent \<Longrightarrow> reality s1 = reality s"
    by blast+
qed

lemma sync_kept: "kept ev s (sync_from_config ev s)"
proof -
  obtain r s1 where l: "load_xray_config ev s = (r, s1)" by (cases "load_xray_config ev s")
  from load_facts(3) [OF l] show ?thesis
    by (cases r) (simp_all add: sync_from_config_def l kept_def persisted_clients_def)
qed

lemma maybe_sync_kept: "kept ev s (maybe_sync ev s)"
  by (simp add: maybe_sync_def sync_kept split: option.splits)

lemma finish_state [simp]: "snd (finish cmd ok sid s) = s"
  by (simp add: finish_def)

lemma finish_True [simp]:
  "finish cmd True sid s
     = (Return (executed cmd (reply_short_id sid)), s)"
  by (simp add: finish_def executed_def)

section \<open>Add: the registry and the reload\<close>

text \<open>
  C9. The code saves before it touches the registry, but an add that drops a
  label-conflicting entry from the client list leaves the dropped identifier in the
  registry. After two accepted add requests with the same label and different
  identifiers the registry lists the first identifier, which the persisted
  configuration no longer contains.
\<close>

theorem registry_keeps_dropped_identifier:
  "fst (serve [(env_at 0, add_request uuid_a ''u1''), (env_at 1, add_request uuid_b ''u1'')]
          (boot (Content (conf 10 []))))
     = [Return (executed ''add_user'' sid0), Return (executed ''add_user'' sid0)]
   \<and> persisted_clients
       (snd (serve [(env_at 0, add_request uuid_a ''u1''), (env_at 1, add_request uuid_b ''u1'')]
               (boot (Content (conf 10 [])))))
     = [new_client uuid_b ''u1'']
   \<and> users (cache
       (snd (serve [(env_at 0, add_request uuid_a ''u1''), (env_at 1, add_request uuid_b ''u1'')]
               (boot (Content (conf 10 []))))))
     = {uuid_a, uuid_b}"
  by (simp add: scenario_defs model_defs persisted_clients_def executed_def insert_commute)

text \<open>
  C6. The add path drops an entry that carries the new label under another identifier;
  the regenerate path only filters the old identifier. A regenerate whose label is held
  by another identifier leaves two entries with the same label in the saved client list.
\<close>

theorem regenerate_keeps_label_conflict:
  "persisted_clients
     (snd (serve [(env_at 0, add_request uuid_a ''u1''),
                  (env_at 1, regenerate_request uuid_x uuid_b ''u1'')]
             (boot (Content (conf 10 [])))))
     = [new_client uuid_a ''u1'', new_client uuid_b ''u1'']
   \<and> labels [new_client uuid_a ''u1'', new_client uuid_b ''u1''] = [Some ''u1'', Some ''u1'']
   \<and> fst (serve [(env_at 0, add_request uuid_a ''u1''),
                  (env_at 1, regenerate_request uuid_x uuid_b ''u1'')]
             (boot (Content (conf 10 []))))
     = [Return (executed ''add_user'' sid0), Return (regenerated sid0)]"
  by (simp add: scenario_defs model_defs persisted_clients_def executed_def regenerated_def
      labels_def)

text \<open>
  C1. On the fallback path the engine merges the new user into the loaded config
  (dropping the entry that holds the new label under another identifier), saves it and
  updates the registry, but it then issues no reload command even where
  \<open>should_reload_xray\<close> answers \<open>True\<close> for the identifier. The handler does not consult
  \<open>should_reload_xray\<close>; its own test, commented as "reload only if the user was added",
  is \<open>not user_cache.exists(user_uuid, check_sync=False)\<close> and runs after
  \<open>add_user_via_api\<close> has put the identifier into the registry. Below: the gRPC endpoint
  is unreachable, the registry was synced two minutes ago, no reload is on record.
\<close>

theorem add_fallback_never_reloads:
  "fst (receive_command (env_at 120) (add_request uuid_a ''u1'')
          (sync_from_config (env_at 0)
             (boot (Content (conf 10 [entry uuid_x ''u1'', entry uuid_b ''u2''])))))
     = Return (executed ''add_user'' sid0)
   \<and> trace (snd (receive_command (env_at 120) (add_request uuid_a ''u1'')
          (sync_from_config (env_at 0)
             (boot (Content (conf 10 [entry uuid_x ''u1'', entry uuid_b ''u2'']))))))
     = [EvSave (conf 10 [entry uuid_b ''u2'', entry uuid_a ''u1'']), EvCacheAdd uuid_a]
   \<and> grpc_available (env_at 120) = False
   \<and> fst (should_reload_xray (env_at 120) uuid_a
          (snd (receive_command (env_at 120) (add_request uuid_a ''u1'')
             (sync_from_config (env_at 0)
                (boot (Content (conf 10 [entry uuid_x ''u1'', entry uuid_b ''u2''])))))))
     = True"
  by (simp add: scenario_defs model_defs executed_def entry_def)

section \<open>Remove\<close>

lemma has_id_Nil [simp]: "\<not> has_id u []"
  by (simp add: has_id_def)

lemma kept_absent:
  "kept ev s s1 \<Longrightarrow> \<not> has_id u (persisted_clients s) \<Longrightarrow> \<not> has_id u (persisted_clients s1)"
  by (auto simp: kept_def)

lemma find_client_absent: "\<not> has_id u cs \<Longrightarrow> find_client u cs = None"
  by (induction cs) (auto simp: has_id_def find_client_def)

lemma remove_id_absent: "\<not> has_id u cs \<Longrightarrow> remove_id u cs = cs"
  by (induction cs) (auto simp: has_id_def remove_id_def)

lemma remove_user_via_api_absent:
  assumes "\<not> has_id u (persisted_clients s)"
  shows "kept ev s (snd (remove_user_via_api ev u s))
     \<and> (\<forall>b. fst (remove_user_via_api ev u s) = Return b \<longrightarrow> b = (False, False))"
proof -
  obtain r s1 where l: "load_xray_config ev s = (r, s1)" by (cases "load_xray_config ev s")
  note k = load_facts(3) [OF l]
  show ?thesis
  proof (cases r)
    case (Raise e)
    with l k show ?thesis by (simp add: remove_user_via_api_def)
  next
    case (Return c)
    from load_facts(4) [OF l Return] assms have "\<not> has_id u (doc_clients c)" by simp
    then have "find_vless c = None \<or> (\<exists>ib. find_vless c = Some ib \<and> find_client u (clients ib) = None)"
      by (auto simp: doc_clients_alt find_client_absent split: option.splits)
    with l Return k show ?thesis
      by (auto simp: remove_user_via_api_def)
  qed
qed

lemma remove_user_from_config_absent:
  assumes "\<not> has_id u (persisted_clients s)"
  shows "kept ev s (snd (remove_user_from_config ev u s))
     \<and> (\<forall>b. fst (remove_user_from_config ev u s) = Return b \<longrightarrow> b = False)"
proof -
  obtain r s1 where l: "load_xray_config ev s = (r, s1)" by (cases "load_xray_config ev s")
  note k = load_facts(3) [OF l]
  show ?thesis
  proof (cases r)
    case (Raise e)
    with l k show ?thesis by (simp add: remove_user_from_config_def)
  next
    case (Return c)
    from load_facts(4) [OF l Return] assms have "\<not> has_id u (doc_clients c)" by simp
    then have "find_vless c = None
        \<or> (\<exists>ib. find_vless c = Some ib \<and> remove_id u (clients ib) = clients ib)"
      by (auto simp: doc_clients_alt remove_id_absent split: option.splits)
    with l Return k show ?thesis
      by (auto simp: remove_user_from_config_def)
  qed
qed

lemma receive_remove_absent:
  assumes "\<not> has_id u (persisted_clients s)"
  shows "kept ev s (snd (receive_remove ev u s))"
proof -
  let ?s1 = "maybe_sync ev s"
  have k1: "kept ev s ?s1" by (rule maybe_sync_kept)
  have a: "\<not> has_id u (persisted_clients ?s1)" using k1 assms by (rule kept_absent)
  obtain r2 s2 where v: "remove_user_via_api ev u ?s1 = (r2, s2)"
    by (cases "remove_user_via_api ev u ?s1")
  from remove_user_via_api_absent [OF a, of ev] v
  have p2: "kept ev ?s1 s2" "\<And>b. r2 = Return b \<Longrightarrow> b = (False, False)"
    by simp_all
  have k2: "kept ev s s2" using k1 p2(1) by (rule kept_trans)
  have a2: "\<not> has_id u (persisted_clients s2)" using k2 assms by (rule kept_absent)
  obtain r3 s3 where c: "remove_user_from_config ev u s2 = (r3, s3)"
    by (cases "remove_user_from_config ev u s2")
  from remove_user_from_config_absent [OF a2, of ev] c
  have p3: "kept ev s2 s3" "\<And>b. r3 = Return b \<Longrightarrow> b = False"
    by simp_all
  have k3: "kept ev s s3" using k2 p3(1) by (rule kept_trans)
  show ?thesis
  proof (cases "u \<in> users (cache ?s1)")
    case False
    with k1 show ?thesis by (simp add: receive_remove_def exists_def)
  next
    case True
    show ?thesis
    proof (cases r2)
      case (Raise e)
      with True v k2 show ?thesis by (simp add: receive_remove_def exists_def)
    next
      case (Return b)
      with p2(2) have b: "b = (False, False)" by simp
      show ?thesis
      proof (cases r3)
        case (Raise e)
        with True v Return b c k3 show ?thesis by (simp add: receive_remove_def exists_def)
      next
        case (Return b3)
        with p3(2) have "b3 = False" by simp
        with True v \<open>r2 = Return b\<close> b c Return k3 show ?thesis
          by (simp add: receive_remove_def exists_def)
      qed
    qed
  qed
qed

lemma receive_remove_unlisted:
  assumes "u \<notin> users (cache (maybe_sync ev s))"
  shows "receive_remove ev u s = (Return (executed ''remove_user'' None), maybe_sync ev s)"
  using assms by (simp add: receive_remove_def exists_def reply_short_id_def)

text \<open>
  C2. As stated the claim fails. The handler answers a remove with success only when
  the registry does not list the identifier; when the registry still lists an
  identifier that the persisted client list does not contain,
  \<open>remove_user_via_api\<close> and \<open>remove_user_from_config\<close> both report "not found" and the
  request is answered with a failure. Such a registry arises from the engine's own
  requests: the second add below drops the first user's entry (same label) from the
  file and leaves the first identifier in the registry. And the persisted list does
  not always survive: a request whose load migrates an obsolete \<open>maxTimeDiff\<close> writes
  the file, and when that write fails in the dump the file is left truncated, although
  the request is answered with success.
\<close>

theorem remove_absent_counterexample:
  "persisted_clients
     (snd (serve [(env_at 0, add_request uuid_a ''u1''), (env_at 1, add_request uuid_b ''u1'')]
             (boot (Content (conf 10 [])))))
     = [new_client uuid_b ''u1'']
   \<and> fst (serve [(env_at 0, add_request uuid_a ''u1''), (env_at 1, add_request uuid_b ''u1''),
                 (env_at 2, remove_request uuid_a)]
             (boot (Content (conf 10 []))))
     = [Return (executed ''add_user'' sid0), Return (executed ''add_user'' sid0),
        Raise (HTTPException 400 ''Failed to execute command: remove_user'')]
   \<and> receive_command ((env_at 0)\<lparr>write_fault := DumpFault\<rparr>) (remove_request uuid_a)
        (boot (Content (conf 30 [new_client uuid_b ''u1''])))
     = (Return (executed ''remove_user'' None),
        (boot NotJson)\<lparr>cache := \<lparr>users = {uuid_b}, last_sync = Some 0, last_xray_reload = None\<rparr>\<rparr>)"
  by (simp add: scenario_defs model_defs persisted_clients_def executed_def)

text \<open>
  C2, amended. For every identifier that the persisted client list does not contain, a
  remove request leaves the persisted client list unchanged, and it is answered with
  success whenever the registry (after the sync that the membership test may trigger)
  does not list the identifier. The request itself writes nothing; the one way the file
  can change is the migration step of a load, and the list is lost only if that write
  fails in the dump and leaves the truncated file.
\<close>

theorem remove_absent_unchanged:
  assumes "command rq = ''remove_user''" and "user_uuid rq = Some u"
    and "u \<noteq> []" and "uuid_ok ev u"
    and "\<not> has_id u (persisted_clients s)"
  shows "(persisted_clients (snd (receive_command ev rq s)) = persisted_clients s
          \<or> (write_fault ev = DumpFault \<and> config_file (snd (receive_command ev rq s)) = NotJson))
     \<and> (u \<notin> users (cache (maybe_sync ev s))
          \<longrightarrow> fst (receive_command ev rq s) = Return (executed ''remove_user'' None))"
proof -
  from assms(1-4) have "receive_command ev rq s = receive_remove ev u s"
    by (simp add: receive_command_def)
  with receive_remove_absent [OF assms(5), of ev] show ?thesis
    by (auto simp: receive_remove_unlisted kept_def)
qed

theorem remove_absent_unchanged_witness:
  "\<not> has_id uuid_a (persisted_clients (boot (Content (conf 10 [new_client uuid_b ''u1'']))))
   \<and> uuid_a \<notin> users (cache (maybe_sync (env_at 0) (boot (Content (conf 10 [new_client uuid_b ''u1''])))))
   \<and> fst (receive_command (env_at 0) (remove_request uuid_a)
            (boot (Content (conf 10 [new_client uuid_b ''u1'']))))
       = Return (executed ''remove_user'' None)
   \<and> persisted_clients (snd (receive_command (env_at 0) (remove_request uuid_a)
            (boot (Content (conf 10 [new_client uuid_b ''u1''])))))
       = [new_client uuid_b ''u1'']"
  using remove_absent_unchanged
    [of "remove_request uuid_a" uuid_a "env_at 0"
        "boot (Content (conf 10 [new_client uuid_b ''u1'']))"]
  by (simp add: scenario_defs persisted_clients_def has_id_def new_client_def maybe_sync_def
      sync_from_config_def load_xray_config_def obsolete_def is_vless_def config_ids_def
      truthy_id_def clients_def List.map_filter_def)

section \<open>Regenerate\<close>


















lemma saves_append [simp]: "saves (xs @ ys) = saves xs + saves ys"
  by (simp add: saves_def)

lemma saves_simps [simp]:
  "saves [] = 0"
  "saves (EvSave d # evs) = Suc (saves evs)"
  "saves (EvReload st # evs) = saves evs"
  "saves (EvCacheAdd u # evs) = saves evs"
  "saves (EvCacheRemove u # evs) = saves evs"
  by (simp_all add: saves_def is_save_def)







section \<open>Requests on a well-shaped config file\<close>




lemma shape_default [simp]:
  "settings_present (default_config cs)" "has_vless (default_config cs)"
  by (simp_all add: settings_present_def has_vless_def default_config_def)


lemma reality_serves_upd [simp]:
  "reality_serves ev (s\<lparr>trace := t\<rparr>) = reality_serves ev s"
  "reality_serves ev (s\<lparr>cache := k\<rparr>) = reality_serves ev s"
  by (simp_all add: reality_serves_def split: reality_store.splits)


lemma reality_serves_cache_fun [simp]:
  "reality_serves ev (cache_add u s) = reality_serves ev s"
  "reality_serves ev (cache_remove u s) = reality_serves ev s"
  by (simp_all add: cache_add_def cache_remove_def)

lemma file_cache_fun [simp]:
  "config_file (cache_add u s) = config_file s"
  "config_file (cache_remove u s) = config_file s"
  by (simp_all add: cache_add_def cache_remove_def)





lemma finish_definite [simp]: "definite (fst (finish cmd ok sid s))"
  by (simp add: finish_def definite_def low_level_def bad_request_def)


section \<open>Exceptions that leave the handler\<close>








lemma definite_Return [simp]: "definite (Return x)"
  by (simp add: definite_def)

lemma definite_bad_request [simp]: "definite (Raise (bad_request d))"
  by (simp add: definite_def low_level_def bad_request_def)








section \<open>Adding the same identifier twice\<close>













lemma succeeded_executed [simp]: "succeeded (Return (executed cmd sid))"
  by (simp add: succeeded_def executed_def)




end
